theory Spec2Isabelle
  imports Complex_Main "HOL-Library.Word"
begin

section \<open>Threshold controller\<close>

text \<open>
  The globals of \<^verbatim>\<open>main.c\<close> that the threshold logic reads and writes: the last
  temperature, the threshold, the latch \<^verbatim>\<open>threshold_overcome\<close> and the level of the
  LED pin. A C \<^verbatim>\<open>double\<close> is modelled as a real number: rounding is not modelled.
\<close>

record controller =
  temperature :: real
  threshold :: real
  threshold_overcome :: bool
  led :: bool

definition THRESHOLD_DEFAULT_VALUE :: real where
  "THRESHOLD_DEFAULT_VALUE = - 50"

text \<open>\<^verbatim>\<open>handle_threshold\<close> (main.c, lines 102-114).\<close>

definition handle_threshold :: "controller \<Rightarrow> controller" where
  "handle_threshold g =
     (if threshold g \<noteq> THRESHOLD_DEFAULT_VALUE then
        (if temperature g \<ge> threshold g \<or>
            (threshold_overcome g \<and> temperature g \<ge> threshold g - 1)
         then g\<lparr>threshold_overcome := True, led := True\<rparr>
         else g\<lparr>threshold_overcome := False, led := False\<rparr>)
      else g)"

text \<open>
  The sampling loop of \<^verbatim>\<open>app_main\<close> stores each new temperature and then calls
  \<^verbatim>\<open>handle_threshold\<close>; \<open>alarm_states\<close> runs it over a sequence of temperatures and
  collects the latch after each cycle.
\<close>

fun alarm_states :: "controller \<Rightarrow> real list \<Rightarrow> bool list" where
  "alarm_states g [] = []"
| "alarm_states g (x # xs) =
     (let g' = handle_threshold (g\<lparr>temperature := x\<rparr>)
      in threshold_overcome g' # alarm_states g' xs)"

section \<open>The set-threshold request\<close>

definition NUL :: char where
  "NUL = CHR 0x00"

text \<open>
  The loop of \<^verbatim>\<open>post_set_threshold_handler\<close> (lines 422-429) over the bytes received,
  with the counter \<^verbatim>\<open>count\<close> and the array \<^verbatim>\<open>thresh[10]\<close>. A write at index 10 or
  beyond is outside the array, which C leaves undefined: the result is \<open>None\<close>.
\<close>

fun extract_thresh :: "string \<Rightarrow> nat \<Rightarrow> string \<Rightarrow> string option" where
  "extract_thresh [] count thresh = Some thresh"
| "extract_thresh (c # cs) count thresh =
     (if c = CHR ''='' then extract_thresh cs (count + 1) thresh
      else if count \<noteq> 0 then
        (if count - 1 < 10 then extract_thresh cs (count + 1) (thresh[count - 1 := c])
         else None)
      else extract_thresh cs count thresh)"

text \<open>
  The C string held by a character array: the bytes before the first NUL. An array
  with no NUL has no terminator, and reading it as a string is undefined.
\<close>

definition c_string :: "string \<Rightarrow> string option" where
  "c_string buf = (if NUL \<in> set buf then Some (takeWhile (\<lambda>c. c \<noteq> NUL) buf) else None)"

definition thresh_init :: string where
  "thresh_init = [NUL, NUL, NUL, NUL, NUL, NUL, NUL, NUL, NUL, NUL]"

text \<open>
  The value string the handler extracts from a request body. \<^verbatim>\<open>buffer\<close> has 20 bytes,
  so a longer body overruns it (undefined, \<open>None\<close>).
\<close>

definition thresh_of :: "string \<Rightarrow> string option" where
  "thresh_of body =
     (if 20 < length body then None
      else Option.bind (extract_thresh body 0 thresh_init) c_string)"

subsection \<open>The C library's \<^verbatim>\<open>atof\<close>\<close>

text \<open>
  \<^verbatim>\<open>atof\<close> is the C library's \<^verbatim>\<open>strtod\<close> without the end pointer: it skips white
  space, reads an optional sign and the longest prefix that is a number, and returns 0
  when there is none. A number is a decimal one (digits with an optional fraction,
  then an optional exponent after \<^verbatim>\<open>e\<close>), a hexadecimal one (\<^verbatim>\<open>0x\<close>, hexadecimal
  digits with an optional fraction, then an optional power of two after \<^verbatim>\<open>p\<close>), or
  one of the words \<^verbatim>\<open>inf\<close>, \<^verbatim>\<open>infinity\<close> and \<^verbatim>\<open>nan\<close> in any case. The words, and
  a number too large for a finite \<^verbatim>\<open>double\<close>, have no real value: they are
  \<open>Special\<close>, and \<open>atof\<close> gives \<open>None\<close> for them. Where the hexadecimal form is
  incomplete the prefix \<^verbatim>\<open>0\<close> is the number read.
\<close>

definition is_space :: "char \<Rightarrow> bool" where
  "is_space c = (c \<in> set [CHR '' '', CHR 0x09, CHR 0x0A, CHR 0x0B, CHR 0x0C, CHR 0x0D])"

definition is_digit :: "char \<Rightarrow> bool" where
  "is_digit c = (c \<in> set ''0123456789'')"

definition is_xdigit :: "char \<Rightarrow> bool" where
  "is_xdigit c = (c \<in> set ''0123456789abcdefABCDEF'')"

definition digit_value :: "char \<Rightarrow> nat" where
  "digit_value c =
     (if is_digit c then of_char c - 48
      else if c \<in> set ''abcdef'' then of_char c - 87
      else of_char c - 55)"

text \<open>The value of a string of digits in the base \<open>b\<close>.\<close>

definition digits_value :: "nat \<Rightarrow> string \<Rightarrow> nat" where
  "digits_value b ds = foldl (\<lambda>n c. b * n + digit_value c) 0 ds"

fun strip_sign :: "string \<Rightarrow> bool \<times> string" where
  "strip_sign [] = (False, [])"
| "strip_sign (c # cs) =
     (if c = CHR ''-'' then (True, cs)
      else if c = CHR ''+'' then (False, cs)
      else (False, c # cs))"

fun inf_or_nan :: "string \<Rightarrow> bool" where
  "inf_or_nan (a # b # c # cs) =
     ((a \<in> set ''iI'' \<and> b \<in> set ''nN'' \<and> c \<in> set ''fF'')
      \<or> (a \<in> set ''nN'' \<and> b \<in> set ''aA'' \<and> c \<in> set ''nN''))"
| "inf_or_nan cs = False"

fun hex_prefix :: "string \<Rightarrow> string option" where
  "hex_prefix (z # x # cs) = (if z = CHR ''0'' \<and> x \<in> set ''xX'' then Some cs else None)"
| "hex_prefix cs = None"

fun fraction_part :: "(char \<Rightarrow> bool) \<Rightarrow> string \<Rightarrow> string \<times> string" where
  "fraction_part p [] = ([], [])"
| "fraction_part p (c # cs) =
     (if c = CHR ''.'' then (takeWhile p cs, dropWhile p cs) else ([], c # cs))"

text \<open>
  The exponent after one of the letters \<open>marks\<close>: an optional sign and decimal
  digits. Without a digit there is no exponent.
\<close>

fun exponent_part :: "string \<Rightarrow> string \<Rightarrow> int" where
  "exponent_part marks [] = 0"
| "exponent_part marks (c # cs) =
     (if c \<in> set marks then
        (let (neg, r) = strip_sign cs; ds = takeWhile is_digit r
         in if ds = [] then 0
            else if neg then - int (digits_value 10 ds) else int (digits_value 10 ds))
      else 0)"

definition scale :: "real \<Rightarrow> real \<Rightarrow> int \<Rightarrow> real" where
  "scale b m e = (if 0 \<le> e then m * b ^ nat e else m / b ^ nat (- e))"

text \<open>
  A number in the base \<open>b\<close> with digits \<open>p\<close>, scaled by the powers of \<open>eb\<close> that
  the exponent after \<open>marks\<close> gives; \<open>None\<close> when the text starts with no digit.
\<close>

definition number :: "nat \<Rightarrow> (char \<Rightarrow> bool) \<Rightarrow> real \<Rightarrow> string \<Rightarrow> string \<Rightarrow> real option" where
  "number b p eb marks cs =
     (let ip = takeWhile p cs;
          (fp, r) = fraction_part p (dropWhile p cs)
      in if ip = [] \<and> fp = [] then None
         else Some (scale eb
                (real (digits_value b ip) + real (digits_value b fp) / real b ^ length fp)
                (exponent_part marks r)))"

datatype conversion = No_Conversion | Number real | Special

text \<open>The magnitude from which a value rounds to an infinite \<^verbatim>\<open>double\<close>.\<close>

definition double_limit :: real where
  "double_limit = 2 ^ 1024 - 2 ^ 970"

definition strtod :: "string \<Rightarrow> conversion" where
  "strtod s =
     (let (neg, s2) = strip_sign (dropWhile is_space s)
      in if inf_or_nan s2 then Special
         else
           (case (case Option.bind (hex_prefix s2) (number 16 is_xdigit 2 ''pP'') of
                    Some v \<Rightarrow> Some v
                  | None \<Rightarrow> number 10 is_digit 10 ''eE'' s2) of
              None \<Rightarrow> No_Conversion
            | Some v \<Rightarrow>
                if v < double_limit then Number (if neg then - v else v) else Special))"

definition atof :: "string \<Rightarrow> real option" where
  "atof s =
     (case strtod s of No_Conversion \<Rightarrow> Some 0 | Number v \<Rightarrow> Some v | Special \<Rightarrow> None)"

text \<open>
  \<^verbatim>\<open>post_set_threshold_handler\<close> (lines 413-436): the value string is extracted, the
  LED pin is set low and the threshold becomes \<^verbatim>\<open>atof(thresh)\<close>. The handler has no
  other assignment: \<^verbatim>\<open>threshold_overcome\<close> is not written. The result is \<open>None\<close>
  where the request overruns \<^verbatim>\<open>buffer\<close> or \<^verbatim>\<open>thresh\<close>, and where \<^verbatim>\<open>atof\<close> has no
  real value.
\<close>

definition post_set_threshold_handler :: "string \<Rightarrow> controller \<Rightarrow> controller option" where
  "post_set_threshold_handler body g =
     (case thresh_of body of
        None \<Rightarrow> None
      | Some s \<Rightarrow>
          (case atof s of
             None \<Rightarrow> None
           | Some v \<Rightarrow> Some (g\<lparr>led := False, threshold := v\<rparr>)))"

section \<open>Converter\<close>

text \<open>
  \<^verbatim>\<open>get_temperature\<close> (lines 91-97) applied to the raw sample \<^verbatim>\<open>mV\<close>, a C int. The
  argument of \<^verbatim>\<open>sqrt\<close> is named, so that its sign can be stated: the C function has
  no real result on a negative argument.
\<close>

definition radicand :: "int \<Rightarrow> real" where
  "radicand mV = (- 8.194)\<^sup>2 + 4 * 0.00262 * real_of_int (1324 - mV)"

definition get_temperature :: "int \<Rightarrow> real" where
  "get_temperature mV = (8.194 - sqrt (radicand mV)) / (2 * - 0.00262) + 40"

section \<open>Clock\<close>

text \<open>
  \<^verbatim>\<open>init_time\<close> (lines 176-197). The platform's answers are an input: \<open>time n\<close> is
  what the \<open>n\<close>-th call of \<^verbatim>\<open>time(&now)\<close> returns, in seconds since the epoch. The
  time zone is never set, so \<^verbatim>\<open>localtime_r\<close> gives UTC and \<^verbatim>\<open>tm_year < 2016 - 1900\<close>
  holds exactly when \<open>now\<close> is before 2016-01-01 00:00:00 UTC; the zeroed \<^verbatim>\<open>timeinfo\<close>
  the loop starts from has \<^verbatim>\<open>tm_year = 0\<close>. \<^verbatim>\<open>mktime\<close> of that broken-down time with
  one more hour is \<open>now + 3600\<close>. A \<^verbatim>\<open>time_t\<close> is modelled as an integer.
\<close>

definition epoch_2016 :: int where
  "epoch_2016 = 1451606400"

definition retry_count :: nat where
  "retry_count = 10"

function init_time_loop :: "(nat \<Rightarrow> int) \<Rightarrow> bool \<Rightarrow> int \<Rightarrow> nat \<Rightarrow> int" where
  "init_time_loop time before_2016 now retry =
     (if before_2016 \<and> retry + 1 < retry_count
      then init_time_loop time (time (retry + 1) < epoch_2016) (time (retry + 1)) (retry + 1)
      else now)"
  by pat_completeness auto
termination
  by (relation "measure (\<lambda>(time, before_2016, now, retry). retry_count - retry)") auto

declare init_time_loop.simps [simp del]

definition init_time :: "(nat \<Rightarrow> int) \<Rightarrow> int" where
  "init_time time = init_time_loop time True 0 0 + 3600"

text \<open>
  \<^verbatim>\<open>get_time\<close> (lines 202-212): the instant \<^verbatim>\<open>actual_time\<close> it formats, from the global
  \<^verbatim>\<open>t\<close> and the reading of \<^verbatim>\<open>esp_rtc_get_time_us()\<close>, microseconds since boot. The
  formatting of the instant as text is not modelled.
\<close>

definition get_time :: "int \<Rightarrow> nat \<Rightarrow> int" where
  "get_time t rtc_us = t + int (rtc_us div 1000000)"

text \<open>
  An example run of the platform clock: the \<open>n\<close>-th poll, one second after the
  previous one, reads \<open>1700000000 + n\<close> (November 2023).
\<close>

definition steady_clock :: "nat \<Rightarrow> int" where
  "steady_clock n = 1700000000 + int n"

section \<open>History store\<close>

subsection \<open>The platform's key-value store\<close>

text \<open>
  Modelled from the spec: the persistent key-value store that the history store is
  built on (ESP-IDF's NVS; the repository has only calls to it). Its contract is
  \<^verbatim>\<open>get(key) -> bytes | NotFound\<close>, \<^verbatim>\<open>set(key, bytes) -> Result<(), Full>\<close> and
  \<^verbatim>\<open>erase_all() -> Result<(), Error>\<close>. Whether a write finds the store full, and
  whether an erase fails, is the platform's business: \<open>set_full\<close> and \<open>erase_fail\<close>
  list what the coming calls of each kind will report, in order (\<open>True\<close> is the
  failure; calls beyond the list succeed). A write that succeeds takes effect at once,
  and \<^verbatim>\<open>nvs_open\<close>, \<^verbatim>\<open>nvs_commit\<close> and \<^verbatim>\<open>nvs_close\<close> change nothing.

  \<^verbatim>\<open>nvs_get_str\<close> has, beside the key, the length of the caller's buffer, passed in a
  variable that the call also writes: a record that is longer than that length, its
  terminator counted, is not copied and the call fails; in both cases the variable
  receives the length of the record. A key that is not there leaves it unchanged.
\<close>

datatype esp_err_t =
  ESP_OK | ESP_ERR_NVS_NOT_FOUND | ESP_ERR_NVS_NOT_ENOUGH_SPACE | ESP_ERR_NVS_INVALID_LENGTH
  | ESP_FAIL

datatype nvs_value = U16 "16 word" | Str string

record nvs =
  entries :: "string \<rightharpoonup> nvs_value"
  set_full :: "bool list"
  erase_fail :: "bool list"

definition nvs_get_u16 :: "nvs \<Rightarrow> string \<Rightarrow> esp_err_t + 16 word" where
  "nvs_get_u16 st key =
     (case entries st key of Some (U16 w) \<Rightarrow> Inr w | _ \<Rightarrow> Inl ESP_ERR_NVS_NOT_FOUND)"

definition nvs_get_str :: "nvs \<Rightarrow> string \<Rightarrow> nat \<Rightarrow> (esp_err_t + string) \<times> nat" where
  "nvs_get_str st key len =
     (case entries st key of
        Some (Str r) \<Rightarrow>
          if len < length r + 1 then (Inl ESP_ERR_NVS_INVALID_LENGTH, length r + 1)
          else (Inr r, length r + 1)
      | _ \<Rightarrow> (Inl ESP_ERR_NVS_NOT_FOUND, len))"

definition nvs_set :: "string \<Rightarrow> nvs_value \<Rightarrow> nvs \<Rightarrow> esp_err_t \<times> nvs" where
  "nvs_set key v st =
     (case set_full st of
        [] \<Rightarrow> (ESP_OK, st\<lparr>entries := (entries st)(key \<mapsto> v)\<rparr>)
      | full # rest \<Rightarrow>
          if full then (ESP_ERR_NVS_NOT_ENOUGH_SPACE, st\<lparr>set_full := rest\<rparr>)
          else (ESP_OK, st\<lparr>entries := (entries st)(key \<mapsto> v), set_full := rest\<rparr>))"

definition nvs_set_str :: "string \<Rightarrow> string \<Rightarrow> nvs \<Rightarrow> esp_err_t \<times> nvs" where
  "nvs_set_str key r st = nvs_set key (Str r) st"

definition nvs_set_u16 :: "string \<Rightarrow> 16 word \<Rightarrow> nvs \<Rightarrow> esp_err_t \<times> nvs" where
  "nvs_set_u16 key w st = nvs_set key (U16 w) st"

definition nvs_erase_all :: "nvs \<Rightarrow> esp_err_t \<times> nvs" where
  "nvs_erase_all st =
     (case erase_fail st of
        [] \<Rightarrow> (ESP_OK, st\<lparr>entries := Map.empty\<rparr>)
      | failed # rest \<Rightarrow>
          if failed then (ESP_FAIL, st\<lparr>erase_fail := rest\<rparr>)
          else (ESP_OK, st\<lparr>entries := Map.empty, erase_fail := rest\<rparr>))"

definition nvs_empty :: nvs where
  "nvs_empty = \<lparr>entries = Map.empty, set_full = [], erase_fail = []\<rparr>"

subsection \<open>Keys\<close>

definition memory_temperature :: string where
  "memory_temperature = ''t''"

definition memory_count :: string where
  "memory_count = ''count''"

text \<open>
  What \<^verbatim>\<open>snprintf(buf, n, "%d", x)\<close> writes before the terminator: the decimal text of
  \<open>x\<close>, cut to \<open>n - 1\<close> characters.
\<close>

definition digit_char :: "nat \<Rightarrow> char" where
  "digit_char d = ''0123456789'' ! d"

fun decimal :: "nat \<Rightarrow> string" where
  "decimal n = (if n < 10 then [digit_char n] else decimal (n div 10) @ [digit_char (n mod 10)])"

declare decimal.simps [simp del]

definition print_int :: "int \<Rightarrow> string" where
  "print_int x = (if x < 0 then CHR ''-'' # decimal (nat (- x)) else decimal (nat x))"

definition snprintf_d :: "nat \<Rightarrow> int \<Rightarrow> string" where
  "snprintf_d n x = take (n - 1) (print_int x)"

text \<open>
  The key of a reading, as both \<^verbatim>\<open>store_temperature\<close> (lines 267-269) and the read
  loop (lines 302, 317-318) build it: \<^verbatim>\<open>memory_temperature\<close> is copied into the array
  \<^verbatim>\<open>temperature_key\<close> and the number is printed behind it with size 8. \<open>key_text\<close> is
  the text written. The array has \<^verbatim>\<open>strlen(memory_temperature) + 2\<close> bytes, room for
  the prefix, one character and the terminator: a longer text is written past its end,
  which C leaves undefined (\<open>None\<close>).
\<close>

definition key_text :: "int \<Rightarrow> string" where
  "key_text x = memory_temperature @ snprintf_d 8 x"

definition temperature_key :: "int \<Rightarrow> string option" where
  "temperature_key x =
     (if length (key_text x) + 1 \<le> length memory_temperature + 2 then Some (key_text x)
      else None)"

subsection \<open>Appending a reading\<close>

text \<open>\<^verbatim>\<open>clear_memory\<close> (lines 219-232): the error of the erase is only printed.\<close>

definition clear_memory :: "nvs \<Rightarrow> nvs" where
  "clear_memory st = snd (nvs_erase_all st)"

text \<open>
  \<^verbatim>\<open>store_temperature\<close> (lines 238-292). \<open>reading\<close> is the text \<^verbatim>\<open>record\<close> the
  function builds from the time and the temperature (lines 257-264); \<^verbatim>\<open>count\<close> is a
  \<^verbatim>\<open>uint16_t\<close>, printed after promotion to int. The result is \<open>None\<close> when the key
  does not fit its array.
\<close>

definition store_temperature :: "string \<Rightarrow> nvs \<Rightarrow> nvs option" where
  "store_temperature reading st =
     (let (count, s1) =
            (case nvs_get_u16 st memory_count of
               Inl e \<Rightarrow> (0, clear_memory st)
             | Inr c \<Rightarrow> (c + 1, st))
      in case temperature_key (uint count) of
           None \<Rightarrow> None
         | Some key \<Rightarrow>
             Some (let (err, s2) = nvs_set_str key reading s1;
                       (count, s3) =
                         (if err \<noteq> ESP_OK then (0, clear_memory s2) else (count, s2));
                       (err, s4) = nvs_set_u16 memory_count count s3
                   in if err \<noteq> ESP_OK then clear_memory s4 else s4))"

text \<open>The sampling loop appends one reading per cycle.\<close>

definition appends :: "string list \<Rightarrow> nvs \<Rightarrow> nvs option" where
  "appends rs st = foldl (\<lambda>so r. Option.bind so (store_temperature r)) (Some st) rs"

text \<open>The value of \<^verbatim>\<open>count\<close> with which an append builds its key.\<close>

definition next_count :: "nvs \<Rightarrow> 16 word" where
  "next_count st = (case nvs_get_u16 st memory_count of Inr c \<Rightarrow> c + 1 | Inl e \<Rightarrow> 0)"

text \<open>
  The outcome in which both writes of an append took effect: the reading under the key
  of the new counter value, and that counter value.
\<close>

definition both_writes :: "string \<Rightarrow> nvs \<Rightarrow> (string \<rightharpoonup> nvs_value)" where
  "both_writes r st =
     (case nvs_get_u16 st memory_count of
        Inr c \<Rightarrow>
          (entries st)(key_text (uint (c + 1)) \<mapsto> Str r, memory_count \<mapsto> U16 (c + 1))
      | Inl e \<Rightarrow> [key_text 0 \<mapsto> Str r, memory_count \<mapsto> U16 0])"

text \<open>The \<open>n\<close>-th write from now on (counted from 0) reports that the store is full.\<close>

definition reports_full :: "nat \<Rightarrow> nvs \<Rightarrow> bool" where
  "reports_full n st = (n < length (set_full st) \<and> set_full st ! n)"

subsection \<open>Reading the last ten\<close>

text \<open>
  The loop of \<^verbatim>\<open>get_last_10_temperatures_from_nvm\<close> (lines 314-326). \<^verbatim>\<open>i\<close> is a
  \<^verbatim>\<open>size_t\<close>, 32 bits wide on the target, and \<open>wrap32\<close> is its wrap-around. The bound
  \<^verbatim>\<open>(count - 10 >= 0 ? count - 10 : -1)\<close> is an int that the comparison with \<^verbatim>\<open>i\<close>
  converts to \<^verbatim>\<open>size_t\<close>; \<^verbatim>\<open>(unsigned int)count - index\<close> is unsigned and \<^verbatim>\<open>%d\<close> prints
  it as an int. \<open>s\<close> is the \<^verbatim>\<open>size_t s\<close> whose address every lookup receives as the
  buffer length. \<^verbatim>\<open>temperature_arr\<close> has ten rows of 48 bytes: a write to another
  row, or of a record that with its terminator is longer than a row, is outside the
  array (undefined, \<open>None\<close>), as is a key that does not fit. A lookup that fails leaves
  its row as it was.
\<close>

definition wrap32 :: "int \<Rightarrow> int" where
  "wrap32 x = x mod 4294967296"

definition as_int32 :: "int \<Rightarrow> int" where
  "as_int32 u = (if u < 2147483648 then u else u - 4294967296)"

definition loop_bound :: "16 word \<Rightarrow> int" where
  "loop_bound count = wrap32 (if uint count - 10 \<ge> 0 then uint count - 10 else - 1)"

definition row_size :: nat where
  "row_size = 48"

lemma loop_step_decreases:
  assumes "loop_bound count < i"
  shows "0 < i" and "wrap32 (i - 1) < i"
proof -
  have "0 \<le> loop_bound count"
    by (simp add: loop_bound_def wrap32_def)
  with assms show pos: "0 < i"
    by linarith
  then have "(i - 1) mod 4294967296 \<le> i - 1"
    by (intro zmod_le_nonneg_dividend) simp
  then show "wrap32 (i - 1) < i"
    by (simp add: wrap32_def)
qed

function get_last_10_loop ::
  "nvs \<Rightarrow> 16 word \<Rightarrow> int \<Rightarrow> int \<Rightarrow> nat \<Rightarrow> string list \<Rightarrow> string list option" where
  "get_last_10_loop st count i index s temperature_arr =
     (if loop_bound count < i then
        (case temperature_key (as_int32 (wrap32 (uint count - index))) of
           None \<Rightarrow> None
         | Some key \<Rightarrow>
             (let row = nat (wrap32 (uint count - i));
                  got = nvs_get_str st key s
              in if row < 10 then
                   (case fst got of
                      Inr r \<Rightarrow>
                        if length r + 1 \<le> row_size
                        then get_last_10_loop st count (wrap32 (i - 1)) (index + 1) (snd got)
                               (temperature_arr[row := r])
                        else None
                    | Inl e \<Rightarrow>
                        get_last_10_loop st count (wrap32 (i - 1)) (index + 1) (snd got)
                          temperature_arr)
                 else None))
      else Some temperature_arr)"
  by pat_completeness auto
termination
  by (relation "measure (\<lambda>(st, count, i, index, s, temperature_arr). nat i)")
    (auto simp: loop_step_decreases)

declare get_last_10_loop.simps [simp del]

text \<open>
  \<^verbatim>\<open>get_last_10_temperatures_from_nvm\<close> (lines 298-329): \<^verbatim>\<open>count\<close> starts at 0 and
  keeps that value when the counter cannot be read. \<^verbatim>\<open>size_t s\<close> is declared without
  a value: what it holds at the first lookup is an input, \<open>s\<close>.
\<close>

definition get_last_10_temperatures_from_nvm ::
  "nvs \<Rightarrow> nat \<Rightarrow> string list \<Rightarrow> string list option" where
  "get_last_10_temperatures_from_nvm st s temperature_arr =
     (let count = (case nvs_get_u16 st memory_count of Inr c \<Rightarrow> c | Inl e \<Rightarrow> 0)
      in get_last_10_loop st count (uint count) 0 s temperature_arr)"

definition read_count :: "nvs \<Rightarrow> 16 word" where
  "read_count st = (case nvs_get_u16 st memory_count of Inr c \<Rightarrow> c | Inl e \<Rightarrow> 0)"

text \<open>
  \<^verbatim>\<open>get_last_10_temperatures_from_nvm_handler\<close> (lines 379-405): the items of the JSON
  array it sends, the ten rows of \<^verbatim>\<open>temperature_arr\<close> (lines 385-387).
\<close>

definition get_last_10_temperatures_from_nvm_handler ::
  "nvs \<Rightarrow> nat \<Rightarrow> string list \<Rightarrow> string list option" where
  "get_last_10_temperatures_from_nvm_handler st s temperature_arr =
     map_option (\<lambda>arr. map (\<lambda>i. arr ! i) [0..<10])
       (get_last_10_temperatures_from_nvm st s temperature_arr)"

text \<open>\<^verbatim>\<open>temperature_arr\<close> at boot: ten empty strings (line 43).\<close>

definition temperature_arr_init :: "string list" where
  "temperature_arr_init = [[], [], [], [], [], [], [], [], [], []]"

text \<open>Readings for the examples, the oldest first, and the store after the first three.\<close>

definition fifteen_readings :: "string list" where
  "fifteen_readings =
     [''R1'', ''R2'', ''R3'', ''R4'', ''R5'', ''R6'', ''R7'', ''R8'', ''R9'', ''R10'',
      ''R11'', ''R12'', ''R13'', ''R14'', ''R15'']"

definition three_stored :: nvs where
  "three_stored =
     \<lparr>entries = [''t0'' \<mapsto> Str ''R1'', ''t1'' \<mapsto> Str ''R2'', ''t2'' \<mapsto> Str ''R3'',
                 ''count'' \<mapsto> U16 2],
      set_full = [], erase_fail = []\<rparr>"

section \<open>Properties of the threshold controller\<close>

lemmas atof_eval =
  atof_def strtod_def number_def scale_def digits_value_def digit_value_def is_digit_def
  is_xdigit_def is_space_def double_limit_def

lemmas thresh_eval = thresh_of_def thresh_init_def c_string_def NUL_def

text \<open>
  C1, as the code has it: with threshold 25.0 and the band 1.0, the temperatures
  24.9, 25.1, 24.95, 23.9, 24.95 fed to the controller from the unlatched state give
  the latch values false, true, true, false, false. The latch holds through 24.95,
  which is at least 25.0 - 1.0, and the fourth reading, 23.9, is below 25.0 - 1.0 and
  clears it at once. The specification's example has true in the fourth place.
\<close>

theorem alarm_states_hysteresis:
  "alarm_states (g\<lparr>threshold := 25, threshold_overcome := False\<rparr>)
     [24.9, 25.1, 24.95, 23.9, 24.95] = [False, True, True, False, False]"
  by (simp add: handle_threshold_def THRESHOLD_DEFAULT_VALUE_def Let_def)

theorem alarm_states_hysteresis_counterexample:
  "alarm_states \<lparr>temperature = 0, threshold = 25, threshold_overcome = False, led = False\<rparr>
     [24.9, 25.1, 24.95, 23.9, 24.95] \<noteq> [False, True, True, True, False]"
  by (simp add: handle_threshold_def THRESHOLD_DEFAULT_VALUE_def Let_def)

text \<open>
  The two transitions behind it: an unlatched controller latches exactly when the
  temperature reaches the threshold, and a latched one stays latched exactly while the
  temperature is at least the threshold minus 1.0.
\<close>

lemma handle_threshold_latch:
  assumes "threshold g \<noteq> THRESHOLD_DEFAULT_VALUE"
  shows "threshold_overcome (handle_threshold g) =
           (if threshold_overcome g then threshold g - 1 \<le> temperature g
            else threshold g \<le> temperature g)"
    and "led (handle_threshold g) = threshold_overcome (handle_threshold g)"
  using assms by (auto simp: handle_threshold_def)

text \<open>The handler leaves the latch as it was and sets the LED low, whatever it parses.\<close>

lemma post_set_threshold_handler_latch:
  assumes "post_set_threshold_handler body g = Some g'"
  shows "threshold_overcome g' = threshold_overcome g \<and> led g' = False"
  using assms
  by (auto simp: post_set_threshold_handler_def split: option.splits)

text \<open>
  C2: the set-threshold request leaves the controller unlatched (armed = false) and
  the alarm output low, whatever the state before; in particular a latched controller
  is unlatched right after the call. The code sets the output low and does not touch
  the latch: from a latched state with the LED on, the request \<^verbatim>\<open>threshold=30\<close> gives
  the threshold 30, the LED off, and the latch still set. On the next cycle at 29.5,
  below the new threshold, the latch then turns the LED on again.
\<close>

theorem post_set_threshold_handler_keeps_latch:
  "post_set_threshold_handler ''threshold=30''
     \<lparr>temperature = 29.5, threshold = 25, threshold_overcome = True, led = True\<rparr>
   = Some \<lparr>temperature = 29.5, threshold = 30, threshold_overcome = True, led = False\<rparr>
   \<and> handle_threshold
       \<lparr>temperature = 29.5, threshold = 30, threshold_overcome = True, led = False\<rparr>
     = \<lparr>temperature = 29.5, threshold = 30, threshold_overcome = True, led = True\<rparr>
   \<and> handle_threshold
       \<lparr>temperature = 29.5, threshold = 30, threshold_overcome = False, led = False\<rparr>
     = \<lparr>temperature = 29.5, threshold = 30, threshold_overcome = False, led = False\<rparr>"
proof -
  have parsed: "thresh_of ''threshold=30'' = Some ''30''"
    by (simp add: thresh_eval)
  have converted: "atof ''30'' = Some 30"
    by (simp add: atof_eval)
  show ?thesis
    by (simp add: post_set_threshold_handler_def parsed converted handle_threshold_def
        THRESHOLD_DEFAULT_VALUE_def)
qed







section \<open>Properties of the converter\<close>

lemma radicand_positive:
  assumes "mV \<le> 4095"
  shows "0 < radicand mV"
proof -
  have "real_of_int mV \<le> 4095"
    using assms by simp
  then have "0 < 16785409 / 250000 + (173444 - 131 * real_of_int mV) / 12500"
    by argo
  then show ?thesis
    by (simp add: radicand_def power2_eq_square)
qed

lemma radicand_strict_antimono:
  assumes "a < b"
  shows "radicand b < radicand a"
  using assms by (simp add: radicand_def)

text \<open>A larger raw sample gives a smaller temperature.\<close>

lemma get_temperature_strict_antimono:
  assumes "a < b"
  shows "get_temperature b < get_temperature a"
proof -
  have "sqrt (radicand b) < sqrt (radicand a)"
    using assms by (simp add: radicand_strict_antimono)
  then have "8.194 - sqrt (radicand a) < 8.194 - sqrt (radicand b)"
    by simp
  then have "(8.194 - sqrt (radicand b)) / (2 * - 0.00262)
               < (8.194 - sqrt (radicand a)) / (2 * - 0.00262)"
    by (intro divide_strict_right_mono_neg) simp_all
  then show ?thesis
    by (simp add: get_temperature_def)
qed

lemma get_temperature_calibration_point: "get_temperature 1324 = 40"
  by (simp add: get_temperature_def radicand_def)

text \<open>
  C9, as the code has it: for raw samples in the range 0 to 4095 of the 12-bit ADC
  the argument of the square root is positive, so the result is a finite number, and
  the conversion is monotonically non-increasing in the raw sample, indeed strictly
  decreasing. The specification states non-decreasing.
\<close>

theorem get_temperature_antimono:
  assumes "0 \<le> a" and "a \<le> b" and "b \<le> 4095"
  shows "0 < radicand a \<and> 0 < radicand b
         \<and> get_temperature b \<le> get_temperature a
         \<and> (if a < b then get_temperature b < get_temperature a
            else get_temperature b = get_temperature a)"
proof -
  have "0 < radicand a" and "0 < radicand b"
    using assms by (simp_all add: radicand_positive)
  moreover have "get_temperature b \<le> get_temperature a"
    using assms(2) get_temperature_strict_antimono [of a b] by (cases "a = b") auto
  moreover have "a < b \<Longrightarrow> get_temperature b < get_temperature a"
    by (rule get_temperature_strict_antimono)
  moreover have "\<not> a < b \<Longrightarrow> get_temperature b = get_temperature a"
    using assms(2) by simp
  ultimately show ?thesis
    by simp
qed

theorem get_temperature_antimono_witness:
  "(0::int) \<le> 0 \<and> (0::int) \<le> 4095 \<and> (4095::int) \<le> 4095
   \<and> 0 < radicand 0 \<and> 0 < radicand 4095
   \<and> get_temperature 4095 \<le> get_temperature 0
   \<and> get_temperature 4095 < get_temperature 0"
  using get_temperature_antimono [of 0 4095] by simp

theorem get_temperature_monotone_counterexample:
  "(0::int) \<le> 4095 \<and> \<not> get_temperature 0 \<le> get_temperature 4095"
  using get_temperature_strict_antimono [of 0 4095] by simp

section \<open>Properties of the clock\<close>

text \<open>
  The loop of \<^verbatim>\<open>init_time\<close> stops at the first poll that reads a time in 2016 or
  later, if there is one among its nine polls.
\<close>

lemma init_time_loop_first_fix:
  assumes "retry < k" and "k < retry_count"
    and "\<forall>j. retry < j \<and> j < k \<longrightarrow> time j < epoch_2016"
    and "epoch_2016 \<le> time k"
  shows "init_time_loop time True now retry = time k"
  using assms
proof (induction "k - retry" arbitrary: retry now)
  case 0
  then show ?case by simp
next
  case (Suc d)
  show ?case
  proof (cases "retry + 1 = k")
    case True
    have "init_time_loop time True now retry = init_time_loop time False (time k) k"
      using True Suc.prems by (subst init_time_loop.simps) auto
    also have "\<dots> = time k"
      by (subst init_time_loop.simps) simp
    finally show ?thesis .
  next
    case False
    then have lt: "retry + 1 < k"
      using Suc.prems by simp
    then have early: "time (retry + 1) < epoch_2016"
      using Suc.prems by simp
    have "init_time_loop time True now retry
            = init_time_loop time True (time (retry + 1)) (retry + 1)"
      using lt early Suc.prems by (subst init_time_loop.simps) auto
    also have "\<dots> = time k"
      using Suc lt by (intro Suc.hyps(1)) auto
    finally show ?thesis .
  qed
qed

lemma init_time_steady_clock: "init_time steady_clock = 1700003601"
proof -
  have "\<forall>j. 0 < j \<and> j < 1 \<longrightarrow> steady_clock j < epoch_2016"
    by simp
  moreover have "epoch_2016 \<le> steady_clock 1"
    by (simp add: steady_clock_def epoch_2016_def)
  ultimately have "init_time_loop steady_clock True 0 0 = steady_clock 1"
    by (intro init_time_loop_first_fix) (simp_all add: retry_count_def)
  then show ?thesis
    by (simp add: init_time_def steady_clock_def)
qed

text \<open>
  C8, as the code has it: when the \<open>k\<close>-th poll of the one-shot sync is the first to
  read a valid wall time \<open>W\<close>, every later timestamp is \<open>W + 3600\<close> plus the whole
  seconds of the monotonic counter since boot. No monotonic reference is captured at
  the sync and none is subtracted, so the timestamp is not
  \<open>reference_wall_time + (now_ticks - reference_ticks)\<close> unless the sync happened at
  tick 0.
\<close>

theorem get_time_after_sync:
  assumes "0 < k" and "k < retry_count"
    and "\<forall>j. 0 < j \<and> j < k \<longrightarrow> time j < epoch_2016"
    and "epoch_2016 \<le> time k"
  shows "get_time (init_time time) rtc_us = time k + 3600 + int (rtc_us div 1000000)"
proof -
  have "init_time_loop time True 0 0 = time k"
    using assms by (rule init_time_loop_first_fix)
  then show ?thesis
    by (simp add: get_time_def init_time_def)
qed

theorem get_time_after_sync_witness:
  "(0::nat) < 1 \<and> 1 < retry_count \<and> epoch_2016 \<le> steady_clock 1
   \<and> get_time (init_time steady_clock) 3000000 = 1700003604"
proof -
  have first: "\<forall>j. 0 < j \<and> j < 1 \<longrightarrow> steady_clock j < epoch_2016"
    by simp
  have valid: "epoch_2016 \<le> steady_clock 1"
    by (simp add: steady_clock_def epoch_2016_def)
  have "get_time (init_time steady_clock) 3000000
          = steady_clock 1 + 3600 + int (3000000 div 1000000)"
    using first valid by (intro get_time_after_sync) (simp_all add: retry_count_def)
  then show ?thesis
    using valid by (simp add: steady_clock_def retry_count_def)
qed

text \<open>
  In the example run the first poll succeeds, one second after boot (the loop waits
  1000 ms before it polls): the references captured together at the sync would be the
  wall time 1700000001 and the monotonic reading 1000000 microseconds. Two seconds
  later, at 3000000 microseconds, the claimed timestamp is the reference wall time plus
  2; the code gives 1700003604, which is neither 1700000001 + 2 nor, taking the stored
  \<^verbatim>\<open>t\<close> as the reference, 1700003601 + 2.
\<close>

theorem get_time_reference_counterexample:
  "get_time (init_time steady_clock) 3000000
     \<noteq> steady_clock 1 + (int (3000000 div 1000000) - int (1000000 div 1000000))
   \<and> get_time (init_time steady_clock) 3000000
     \<noteq> init_time steady_clock + (int (3000000 div 1000000) - int (1000000 div 1000000))"
  by (simp add: init_time_steady_clock get_time_def steady_clock_def)

section \<open>Properties of the history store\<close>

lemmas key_eval =
  temperature_key_def key_text_def snprintf_d_def print_int_def decimal.simps digit_char_def
  memory_temperature_def

lemmas store_eval =
  store_temperature_def nvs_get_u16_def nvs_set_str_def nvs_set_u16_def nvs_set_def
  clear_memory_def nvs_erase_all_def

subsection \<open>Keys that fit\<close>

lemma decimal_nonempty: "decimal n \<noteq> []"
  by (subst decimal.simps) simp

lemma decimal_two_digits:
  assumes "10 \<le> n"
  shows "2 \<le> length (decimal n)"
proof -
  have "decimal n = decimal (n div 10) @ [digit_char (n mod 10)]"
    using assms by (subst decimal.simps) simp
  moreover have "1 \<le> length (decimal (n div 10))"
    using decimal_nonempty [of "n div 10"] by (cases "decimal (n div 10)") simp_all
  ultimately show ?thesis
    by simp
qed

text \<open>The key array holds the keys \<^verbatim>\<open>t0\<close> to \<^verbatim>\<open>t9\<close> and no other.\<close>

lemma temperature_key_fits:
  "temperature_key x = (if 0 \<le> x \<and> x < 10 then Some (key_text x) else None)"
proof -
  consider "x < 0" | "0 \<le> x \<and> x < 10" | "10 \<le> x"
    by linarith
  then show ?thesis
  proof cases
    case 1
    then have "2 \<le> length (print_int x)"
      using decimal_nonempty [of "nat (- x)"]
      by (cases "decimal (nat (- x))") (simp_all add: print_int_def)
    then show ?thesis
      using 1 by (simp add: temperature_key_def key_text_def snprintf_d_def)
  next
    case 2
    then have "nat x < 10"
      by linarith
    then have "decimal (nat x) = [digit_char (nat x)]"
      by (subst decimal.simps) simp
    then have "print_int x = [digit_char (nat x)]"
      using 2 by (simp add: print_int_def)
    then show ?thesis
      using 2 by (simp add: temperature_key_def key_text_def snprintf_d_def)
  next
    case 3
    then have "2 \<le> length (print_int x)"
      using decimal_two_digits [of "nat x"] by (simp add: print_int_def)
    then show ?thesis
      using 3 by (simp add: temperature_key_def key_text_def snprintf_d_def)
  qed
qed

lemma key_text_not_count: "key_text x \<noteq> memory_count"
  by (simp add: key_text_def memory_temperature_def memory_count_def)

subsection \<open>Appends without failure\<close>

text \<open>
  An append with no failure, on a store that has a counter and on one that has none;
  and the append that takes the counter to 10 or beyond.
\<close>

lemma store_temperature_next:
  assumes "set_full st = []" and "entries st memory_count = Some (U16 c)"
    and "uint (c + 1) < 10"
  shows "store_temperature r st =
           Some (st\<lparr>entries := (entries st)
                  (key_text (uint (c + 1)) \<mapsto> Str r, memory_count \<mapsto> U16 (c + 1))\<rparr>)"
  using assms
  by (simp add: store_temperature_def nvs_get_u16_def nvs_set_str_def nvs_set_u16_def
      nvs_set_def temperature_key_fits)

lemma store_temperature_fresh:
  assumes "set_full st = []" and "erase_fail st = []" and "entries st memory_count = None"
  shows "store_temperature r st =
           Some (st\<lparr>entries := [key_text 0 \<mapsto> Str r, memory_count \<mapsto> U16 0]\<rparr>)"
  using assms by (simp add: store_eval temperature_key_fits)

lemma store_temperature_overrun:
  assumes "entries st memory_count = Some (U16 c)" and "10 \<le> uint (c + 1)"
  shows "store_temperature r st = None"
  using assms by (simp add: store_temperature_def nvs_get_u16_def temperature_key_fits)

lemma appends_snoc:
  "appends (rs @ [r]) st = Option.bind (appends rs st) (store_temperature r)"
  by (simp add: appends_def)

lemma appends_None: "foldl (\<lambda>so r. Option.bind so (store_temperature r)) None rs = None"
  by (induction rs) simp_all

lemma appends_append:
  "appends (rs @ rs') st = None" if "appends rs st = None"
  using that by (simp add: appends_def appends_None)

text \<open>
  From the empty store, with no failure, the stored counter after \<open>n\<close> appends is
  \<open>n - 1\<close>, as long as \<open>n\<close> is at most 10: it is the number of the newest key, and
  the keys start at \<^verbatim>\<open>t0\<close>. The eleventh append overruns the key array.
\<close>

lemma appends_count:
  assumes "rs \<noteq> []" and "length rs \<le> 10"
  shows "\<exists>st. appends rs nvs_empty = Some st \<and> set_full st = [] \<and> erase_fail st = []
           \<and> entries st memory_count = Some (U16 (of_nat (length rs - 1)))"
  using assms
proof (induction rs rule: rev_induct)
  case Nil
  then show ?case by simp
next
  case (snoc r rs)
  show ?case
  proof (cases "rs = []")
    case True
    have "store_temperature r nvs_empty
            = Some (nvs_empty\<lparr>entries := [key_text 0 \<mapsto> Str r, memory_count \<mapsto> U16 0]\<rparr>)"
      by (rule store_temperature_fresh) (simp_all add: nvs_empty_def)
    then show ?thesis
      using True by (simp add: appends_def nvs_empty_def)
  next
    case False
    let ?c = "of_nat (length rs - 1) :: 16 word"
    from False snoc obtain st
      where st: "appends rs nvs_empty = Some st" "set_full st = []" "erase_fail st = []"
        "entries st memory_count = Some (U16 ?c)"
      by auto
    have next_c: "?c + 1 = of_nat (length rs)"
      using False by (cases rs) simp_all
    have "unat (of_nat (length rs) :: 16 word) = length rs"
      using snoc.prems(2) by (simp add: unat_of_nat)
    then have "uint (of_nat (length rs) :: 16 word) = int (length rs)"
      by (simp add: uint_nat)
    then have small: "uint (?c + 1) < 10"
      using snoc.prems(2) next_c by simp
    have "store_temperature r st =
        Some (st\<lparr>entries := (entries st)
               (key_text (uint (?c + 1)) \<mapsto> Str r, memory_count \<mapsto> U16 (?c + 1))\<rparr>)"
      using st(2,4) small by (rule store_temperature_next)
    then show ?thesis
      using st next_c by (simp add: appends_snoc)
  qed
qed

lemma appends_eleven:
  assumes "length rs = 10"
  shows "appends (rs @ [r]) nvs_empty = None"
proof -
  from assms have "rs \<noteq> []" and "length rs \<le> 10"
    by auto
  then obtain st
    where st: "appends rs nvs_empty = Some st"
      "entries st memory_count = Some (U16 (of_nat (length rs - 1)))"
    using appends_count [of rs] by blast
  have "10 \<le> uint ((of_nat (length rs - 1) :: 16 word) + 1)"
    using assms by simp
  with st(2) have "store_temperature r st = None"
    by (rule store_temperature_overrun)
  then show ?thesis
    using st(1) by (simp add: appends_snoc)
qed

lemma appends_three:
  "appends [r1, r2, r3] nvs_empty =
     Some \<lparr>entries = [''t0'' \<mapsto> Str r1, ''t1'' \<mapsto> Str r2, ''t2'' \<mapsto> Str r3,
                       ''count'' \<mapsto> U16 2],
           set_full = [], erase_fail = []\<rparr>"
proof -
  have "[''t0'' \<mapsto> Str r1, ''count'' \<mapsto> U16 0, ''t1'' \<mapsto> Str r2, ''count'' \<mapsto> U16 1,
         ''t2'' \<mapsto> Str r3, ''count'' \<mapsto> U16 2]
        = [''t0'' \<mapsto> Str r1, ''t1'' \<mapsto> Str r2, ''t2'' \<mapsto> Str r3, ''count'' \<mapsto> U16 2]"
    by (rule ext) simp
  then show ?thesis
    by (simp add: appends_def nvs_empty_def store_temperature_fresh store_temperature_next
        key_text_not_count key_eval memory_count_def)
qed

lemma appends_three_stored: "appends [''R1'', ''R2'', ''R3''] nvs_empty = Some three_stored"
  by (simp only: appends_three three_stored_def)

text \<open>
  C3: after every successful append, starting from an empty store, the stored counter
  equals the number of readings appended since the last erase, so that it is N after
  N appends. In the code the first append stores the counter 0 beside its reading
  under \<^verbatim>\<open>t0\<close>, and three appends leave the counter 2 beside three readings.
\<close>

theorem store_temperature_counter_lags:
  "store_temperature r1 nvs_empty =
     Some \<lparr>entries = [''t0'' \<mapsto> Str r1, ''count'' \<mapsto> U16 0], set_full = [], erase_fail = []\<rparr>
   \<and> appends [r1, r2, r3] nvs_empty =
     Some \<lparr>entries = [''t0'' \<mapsto> Str r1, ''t1'' \<mapsto> Str r2, ''t2'' \<mapsto> Str r3,
                       ''count'' \<mapsto> U16 2],
           set_full = [], erase_fail = []\<rparr>"
proof -
  have "store_temperature r1 nvs_empty
          = Some (nvs_empty\<lparr>entries := [key_text 0 \<mapsto> Str r1, memory_count \<mapsto> U16 0]\<rparr>)"
    by (rule store_temperature_fresh) (simp_all add: nvs_empty_def)
  moreover have "key_text 0 = ''t0''"
    by (simp add: key_eval)
  ultimately have "store_temperature r1 nvs_empty =
      Some \<lparr>entries = [''t0'' \<mapsto> Str r1, ''count'' \<mapsto> U16 0], set_full = [],
             erase_fail = []\<rparr>"
    by (simp add: nvs_empty_def memory_count_def)
  then show ?thesis
    using appends_three [of r1 r2 r3] by (rule conjI)
qed

subsection \<open>The read loop\<close>

text \<open>With a counter below 10 the loop bound is the largest \<^verbatim>\<open>size_t\<close>: no iteration.\<close>

lemma get_last_10_loop_below_10:
  assumes "uint count < 10" and "i \<le> uint count"
  shows "get_last_10_loop st count i index s arr = Some arr"
proof -
  have "loop_bound count = 4294967295"
    using assms(1) by (simp add: loop_bound_def wrap32_def)
  then have "\<not> loop_bound count < i"
    using assms by simp
  then show ?thesis
    by (subst get_last_10_loop.simps) simp
qed

lemma uint_count_bound: "uint (count :: 16 word) < 65536"
  using uint_bounded [of count] by simp

text \<open>With a counter of 10 or more the first key built is the counter's: two digits.\<close>

lemma get_last_10_loop_from_10:
  assumes "10 \<le> uint count"
  shows "get_last_10_loop st count (uint count) 0 s arr = None"
proof -
  have "loop_bound count = uint count - 10"
    using assms uint_count_bound [of count] by (simp add: loop_bound_def wrap32_def)
  then have enter: "loop_bound count < uint count"
    by simp
  have "as_int32 (wrap32 (uint count - 0)) = uint count"
    using uint_count_bound [of count] by (simp add: wrap32_def as_int32_def)
  then have "temperature_key (as_int32 (wrap32 (uint count - 0))) = None"
    using assms by (simp add: temperature_key_fits)
  then show ?thesis
    using enter by (subst get_last_10_loop.simps) simp
qed

lemma rows_10:
  assumes "length xs = 10"
  shows "map (\<lambda>i. xs ! i) [0..<10] = xs"
  using assms map_nth [of xs] by simp

text \<open>
  The query as a whole: below 10 it makes no lookup and answers with the rows as they
  were, from 10 on it overruns the key array at its first lookup.
\<close>

lemma handler_below_10:
  assumes "uint (read_count st) < 10" and "length arr = 10"
  shows "get_last_10_temperatures_from_nvm_handler st s arr = Some arr"
proof -
  have "get_last_10_loop st (read_count st) (uint (read_count st)) 0 s arr = Some arr"
    using assms(1) by (intro get_last_10_loop_below_10) simp_all
  then show ?thesis
    using assms(2)
    by (simp add: get_last_10_temperatures_from_nvm_handler_def
        get_last_10_temperatures_from_nvm_def read_count_def rows_10)
qed

lemma handler_from_10:
  assumes "10 \<le> uint (read_count st)"
  shows "get_last_10_temperatures_from_nvm_handler st s arr = None"
proof -
  have "get_last_10_loop st (read_count st) (uint (read_count st)) 0 s arr = None"
    using assms by (rule get_last_10_loop_from_10)
  then show ?thesis
    by (simp add: get_last_10_temperatures_from_nvm_handler_def
        get_last_10_temperatures_from_nvm_def read_count_def)
qed

text \<open>
  C4: from the empty store, fifteen appends that all succeed and then the last-10
  query give R15, R14, ..., R6. In the code the run does not get that far by a
  defined execution. Ten appends leave the counter 9; the eleventh prints \<^verbatim>\<open>10\<close>
  behind \<^verbatim>\<open>t\<close>, which with the terminator is four bytes for the three of
  \<^verbatim>\<open>temperature_key\<close>. The query on a store whose counter is 14 overruns its own key
  array in the same way at its first lookup, whatever \<^verbatim>\<open>s\<close> and the rows hold.
\<close>

theorem appends_overrun_key_array:
  "map_option read_count (appends (take 10 fifteen_readings) nvs_empty) = Some 9
   \<and> temperature_key 10 = None
   \<and> appends (take 11 fifteen_readings) nvs_empty = None
   \<and> appends fifteen_readings nvs_empty = None
   \<and> get_last_10_temperatures_from_nvm_handler
       (nvs_empty\<lparr>entries := [memory_count \<mapsto> U16 14]\<rparr>) s temperature_arr = None"
proof -
  obtain st where ten: "appends (take 10 fifteen_readings) nvs_empty = Some st"
    "entries st memory_count = Some (U16 (of_nat (length (take 10 fifteen_readings) - 1)))"
    using appends_count [of "take 10 fifteen_readings"] by (auto simp: fifteen_readings_def)
  have "read_count st = 9"
    using ten(2) by (simp add: read_count_def nvs_get_u16_def fifteen_readings_def)
  then have first: "map_option read_count (appends (take 10 fifteen_readings) nvs_empty) = Some 9"
    by (simp add: ten(1))
  have "take 11 fifteen_readings = take 10 fifteen_readings @ [''R11'']"
    by (simp add: fifteen_readings_def)
  then have eleven: "appends (take 11 fifteen_readings) nvs_empty = None"
    using appends_eleven [of "take 10 fifteen_readings" "''R11''"]
    by (simp add: fifteen_readings_def)
  have "fifteen_readings = take 11 fifteen_readings @ drop 11 fifteen_readings"
    by simp
  then have fifteen: "appends fifteen_readings nvs_empty = None"
    using appends_append [OF eleven, of "drop 11 fifteen_readings"] by simp
  have "read_count (nvs_empty\<lparr>entries := [memory_count \<mapsto> U16 14]\<rparr>) = 14"
    by (simp add: read_count_def nvs_get_u16_def)
  then have "get_last_10_temperatures_from_nvm_handler
               (nvs_empty\<lparr>entries := [memory_count \<mapsto> U16 14]\<rparr>) s temperature_arr = None"
    by (intro handler_from_10) simp
  then show ?thesis
    using first eleven fifteen by (simp add: temperature_key_fits)
qed

text \<open>
  C5: with fewer than ten readings stored, the last-10 query returns at most that many
  entries, each one a stored record. In the code, with three readings stored and the
  scratch array as at boot, the query looks nothing up and answers with the ten empty
  rows, whatever \<^verbatim>\<open>s\<close> holds; the newest reading is in the store under \<^verbatim>\<open>t2\<close> and is
  not returned.
\<close>

theorem get_last_10_skips_lookups:
  "appends [''R1'', ''R2'', ''R3''] nvs_empty = Some three_stored
   \<and> entries three_stored ''t2'' = Some (Str ''R3'')
   \<and> read_count three_stored = 2
   \<and> loop_bound 2 = 4294967295
   \<and> get_last_10_temperatures_from_nvm_handler three_stored s temperature_arr_init
     = Some [[], [], [], [], [], [], [], [], [], []]"
proof -
  have count: "read_count three_stored = 2"
    by (simp add: three_stored_def read_count_def nvs_get_u16_def memory_count_def)
  then have "get_last_10_temperatures_from_nvm_handler three_stored s temperature_arr_init
               = Some temperature_arr_init"
    by (intro handler_below_10) (simp_all add: temperature_arr_init_def)
  then show ?thesis
    using count
    by (simp add: appends_three_stored temperature_arr_init_def three_stored_def
        loop_bound_def wrap32_def)
qed

subsection \<open>Failures during an append\<close>

text \<open>What an append does to the entries, when its key fits and no erase fails.\<close>

lemma store_temperature_entries:
  assumes "erase_fail st = []" and "uint (next_count st) < 10"
  shows "\<exists>st'. store_temperature r st = Some st'
           \<and> entries st' =
               (if reports_full 0 st
                then (if reports_full 1 st then Map.empty else [memory_count \<mapsto> U16 0])
                else if reports_full 1 st then Map.empty
                else both_writes r st)"
proof (cases "set_full st")
  case Nil
  then show ?thesis
    using assms
    by (auto simp: reports_full_def both_writes_def next_count_def store_eval
        temperature_key_fits split: option.splits nvs_value.splits)
next
  case outer: (Cons b1 rest)
  show ?thesis
  proof (cases rest)
    case Nil
    then show ?thesis
      using assms outer
      by (auto simp: reports_full_def both_writes_def next_count_def store_eval
          temperature_key_fits split: option.splits nvs_value.splits)
  next
    case (Cons b2 rest')
    then show ?thesis
      using assms outer
      by (auto simp: reports_full_def both_writes_def next_count_def store_eval
          temperature_key_fits split: option.splits nvs_value.splits)
  qed
qed

lemma store_temperature_key_overrun:
  assumes "\<not> uint (next_count st) < 10"
  shows "store_temperature r st = None"
  using assms
  by (auto simp: store_temperature_def next_count_def temperature_key_fits
      split: sum.splits)

text \<open>
  C6, as the code has it. When no erase fails and the key of the new counter value
  fits its array (the value is below 10): if neither write of an append reports a full
  store, both writes take effect, and on a store that had a counter every other key
  keeps its value; if a write reports a full store, the state before the append is not
  restored, the whole store is erased instead, and it ends up holding the counter 0
  alone (reading write full, counter write accepted) or nothing at all. From the
  counter value 10 on the key overruns its array and the append has no defined
  outcome. The specification states that on a failure the store is left in exactly its
  prior state.
\<close>

theorem store_temperature_outcomes:
  assumes "erase_fail st = []"
  shows "map_option entries (store_temperature r st) =
           (if uint (next_count st) < 10 then
              Some (if reports_full 0 st
                    then (if reports_full 1 st then Map.empty else [memory_count \<mapsto> U16 0])
                    else if reports_full 1 st then Map.empty
                    else both_writes r st)
            else None)"
proof (cases "uint (next_count st) < 10")
  case True
  with assms obtain st' where "store_temperature r st = Some st'"
    and "entries st' =
           (if reports_full 0 st
            then (if reports_full 1 st then Map.empty else [memory_count \<mapsto> U16 0])
            else if reports_full 1 st then Map.empty
            else both_writes r st)"
    using store_temperature_entries [of st r] by blast
  then show ?thesis
    using True by simp
next
  case False
  then show ?thesis
    by (simp add: store_temperature_key_overrun)
qed

theorem store_temperature_outcomes_witness:
  "erase_fail three_stored = []
   \<and> map_option entries (store_temperature ''R4'' three_stored)
     = Some ((entries three_stored)(''t3'' \<mapsto> Str ''R4'', ''count'' \<mapsto> U16 3))
   \<and> erase_fail (three_stored\<lparr>set_full := [False, True]\<rparr>) = []
   \<and> map_option entries (store_temperature ''R4'' (three_stored\<lparr>set_full := [False, True]\<rparr>))
     = Some Map.empty"
proof -
  have ok: "erase_fail three_stored = []" "\<not> reports_full 0 three_stored"
    "\<not> reports_full 1 three_stored" "uint (next_count three_stored) < 10"
    by (simp_all add: three_stored_def reports_full_def next_count_def nvs_get_u16_def
        memory_count_def)
  have "both_writes ''R4'' three_stored
          = (entries three_stored)(''t3'' \<mapsto> Str ''R4'', ''count'' \<mapsto> U16 3)"
    by (simp add: three_stored_def both_writes_def nvs_get_u16_def memory_count_def key_eval)
  then have first: "map_option entries (store_temperature ''R4'' three_stored)
                      = Some ((entries three_stored)(''t3'' \<mapsto> Str ''R4'', ''count'' \<mapsto> U16 3))"
    using store_temperature_outcomes [of three_stored "''R4''"] ok by simp
  let ?f = "three_stored\<lparr>set_full := [False, True]\<rparr>"
  have full: "erase_fail ?f = []" "\<not> reports_full 0 ?f" "reports_full 1 ?f"
    "uint (next_count ?f) < 10"
    by (simp_all add: three_stored_def reports_full_def next_count_def nvs_get_u16_def
        memory_count_def)
  then have "map_option entries (store_temperature ''R4'' ?f) = Some Map.empty"
    using store_temperature_outcomes [of ?f "''R4''"] by simp
  then show ?thesis
    using first ok(1) full(1) by simp
qed

text \<open>
  Three readings stored and a full store at the fourth: the keys \<^verbatim>\<open>t0\<close> to \<^verbatim>\<open>t2\<close> are
  lost, the new reading is not stored, and the counter goes from 2 to 0. The store is
  neither as before nor holds both writes.
\<close>

theorem store_temperature_atomic_counterexample:
  "appends [''R1'', ''R2'', ''R3''] nvs_empty = Some three_stored
   \<and> entries (three_stored\<lparr>set_full := [True]\<rparr>) ''t0'' = Some (Str ''R1'')
   \<and> entries (three_stored\<lparr>set_full := [True]\<rparr>) ''count'' = Some (U16 2)
   \<and> map_option entries (store_temperature ''R4'' (three_stored\<lparr>set_full := [True]\<rparr>))
     = Some [''count'' \<mapsto> U16 0]"
proof -
  have "temperature_key 3 = Some ''t3''"
    by (simp add: key_eval)
  then have "map_option entries (store_temperature ''R4'' (three_stored\<lparr>set_full := [True]\<rparr>))
               = Some [''count'' \<mapsto> U16 0]"
    by (simp add: three_stored_def store_eval memory_count_def)
  then show ?thesis
    by (simp add: appends_three_stored) (simp add: three_stored_def)
qed

text \<open>
  C7, as the code has it: when a write of an append reports a full store (no erase
  failing, the key fitting its array), the append erases the whole store and the
  counter restarts at zero: it is stored as 0 when the counter write is accepted, and
  is absent, which reads as 0, when that write reports a full store too. The reading
  is not written again: right after the recovery the store holds no reading, and every
  lookup of one misses. The specification states that the append retries the reading
  once and that the store then contains it.
\<close>

theorem store_temperature_full_recovery:
  assumes "erase_fail st = []" and "uint (next_count st) < 10"
    and "reports_full 0 st \<or> reports_full 1 st"
  shows "\<exists>st'. store_temperature r st = Some st'
           \<and> entries st' = (if reports_full 1 st then Map.empty else [memory_count \<mapsto> U16 0])
           \<and> read_count st' = 0
           \<and> (\<forall>key len. fst (nvs_get_str st' key len) = Inl ESP_ERR_NVS_NOT_FOUND)"
proof -
  from assms(1,2) obtain st' where st': "store_temperature r st = Some st'"
    "entries st' =
       (if reports_full 0 st
        then (if reports_full 1 st then Map.empty else [memory_count \<mapsto> U16 0])
        else if reports_full 1 st then Map.empty
        else both_writes r st)"
    using store_temperature_entries [of st r] by blast
  have entries': "entries st' = (if reports_full 1 st then Map.empty else [memory_count \<mapsto> U16 0])"
    using st'(2) assms(3) by auto
  then have "read_count st' = 0"
    by (simp add: read_count_def nvs_get_u16_def)
  moreover have "fst (nvs_get_str st' key len) = Inl ESP_ERR_NVS_NOT_FOUND" for key len
    using entries' by (simp add: nvs_get_str_def)
  ultimately show ?thesis
    using st'(1) entries' by blast
qed

theorem store_temperature_full_recovery_witness:
  "erase_fail (three_stored\<lparr>set_full := [True]\<rparr>) = []
   \<and> uint (next_count (three_stored\<lparr>set_full := [True]\<rparr>)) < 10
   \<and> reports_full 0 (three_stored\<lparr>set_full := [True]\<rparr>)
   \<and> (\<exists>st'. store_temperature ''R4'' (three_stored\<lparr>set_full := [True]\<rparr>) = Some st'
         \<and> entries st' = [memory_count \<mapsto> U16 0]
         \<and> read_count st' = 0
         \<and> (\<forall>key len. fst (nvs_get_str st' key len) = Inl ESP_ERR_NVS_NOT_FOUND))"
proof -
  let ?f = "three_stored\<lparr>set_full := [True]\<rparr>"
  have hyps: "erase_fail ?f = []" "uint (next_count ?f) < 10" "reports_full 0 ?f"
    "\<not> reports_full 1 ?f"
    by (simp_all add: three_stored_def reports_full_def next_count_def nvs_get_u16_def
        memory_count_def)
  then show ?thesis
    using store_temperature_full_recovery [of ?f "''R4''"] by simp
qed

text \<open>
  Three readings stored and a full store at the reading write of the fourth: the
  append ends with the counter 0 as the only entry. The fourth reading is in the
  store neither under \<^verbatim>\<open>t3\<close>, the key it was refused under, nor under \<^verbatim>\<open>t0\<close>, the key
  of the restarted counter: it was not written again.
\<close>

theorem store_temperature_retry_counterexample:
  "reports_full 0 (three_stored\<lparr>set_full := [True]\<rparr>)
   \<and> store_temperature ''R4'' (three_stored\<lparr>set_full := [True]\<rparr>)
     = Some \<lparr>entries = [''count'' \<mapsto> U16 0], set_full = [], erase_fail = []\<rparr>
   \<and> nvs_get_str \<lparr>entries = [''count'' \<mapsto> U16 0], set_full = [], erase_fail = []\<rparr> ''t3'' 48
     = (Inl ESP_ERR_NVS_NOT_FOUND, 48)
   \<and> nvs_get_str \<lparr>entries = [''count'' \<mapsto> U16 0], set_full = [], erase_fail = []\<rparr> ''t0'' 48
     = (Inl ESP_ERR_NVS_NOT_FOUND, 48)"
proof -
  have "temperature_key 3 = Some ''t3''"
    by (simp add: key_eval)
  then have "store_temperature ''R4'' (three_stored\<lparr>set_full := [True]\<rparr>)
               = Some \<lparr>entries = [''count'' \<mapsto> U16 0], set_full = [], erase_fail = []\<rparr>"
    by (simp add: three_stored_def store_eval memory_count_def)
  then show ?thesis
    by (simp add: nvs_get_str_def reports_full_def three_stored_def)
qed

end
